theory Spec2Isabelle
  imports Complex_Main "HOL-Library.Multiset"
begin

section \<open>Balanced batch samplers: the embedding of sampler.py\<close>

text \<open>
  The module computes per-class weights, turns them into an integer quota per class and
  batch, and reads batches from per-class index pools. Python's floats are modelled by
  exact rationals (\<open>rat\<close>); numpy's integers by \<open>int\<close> (no 64-bit wrap-around); every
  raise of the source is a value of \<open>error\<close>.
\<close>

subsection \<open>Errors and Python list primitives\<close>

datatype error =
    ZeroDivisionError
  | AssertionError
  | ValueError
  | IndexError
  | AttributeError
  | OverflowError
  | NotANumber
  | Exception string

text \<open>
  \<open>NotANumber\<close> is not a Python exception: numpy divides by zero with a warning and
  returns \<open>nan\<close>, which has no rational value, so the model stops there.
\<close>

text \<open>A list comprehension whose element expression may raise: the first raise wins.\<close>

fun collect :: "(error + 'a) list \<Rightarrow> error + 'a list" where
  "collect [] = Inr []"
| "collect (Inl e # rs) = Inl e"
| "collect (Inr x # rs) = (case collect rs of Inl e \<Rightarrow> Inl e | Inr xs \<Rightarrow> Inr (x # xs))"

text \<open>\<open>xs[i]\<close> on a Python list: a negative index counts from the end.\<close>

definition py_index :: "'a list \<Rightarrow> int \<Rightarrow> error + 'a" where
  "py_index xs i =
     (let n = int (length xs); j = (if i < 0 then i + n else i)
      in if 0 \<le> j \<and> j < n then Inr (xs ! nat j) else Inl IndexError)"

text \<open>
  \<open>xs[start:stop]\<close> on a Python list (or a one-dimensional numpy array): the bounds are
  clipped to the list, a negative bound counts from the end, and nothing is raised.
\<close>

definition slice_bound :: "int \<Rightarrow> int \<Rightarrow> int" where
  "slice_bound n i = (if i < 0 then max 0 (i + n) else min i n)"

definition py_slice :: "'a list \<Rightarrow> int \<Rightarrow> int \<Rightarrow> 'a list" where
  "py_slice xs start stop =
     (let n = int (length xs)
      in drop (nat (slice_bound n start)) (take (nat (slice_bound n stop)) xs))"

text \<open>\<open>np.round\<close>: round to the nearest integer, a tie to the even neighbour.\<close>

definition np_round :: "rat \<Rightarrow> int" where
  "np_round x =
     (let f = \<lfloor>x\<rfloor>; d = x - of_int f
      in if d < 1 / 2 then f else if 1 / 2 < d then f + 1 else if even f then f else f + 1)"

text \<open>\<open>np.argmax\<close>: the index of the first occurrence of the maximum; raises on an empty array.\<close>

fun first_index :: "int list \<Rightarrow> int \<Rightarrow> nat" where
  "first_index [] v = 0"
| "first_index (x # xs) v = (if x = v then 0 else Suc (first_index xs v))"

definition argmax :: "int list \<Rightarrow> error + nat" where
  "argmax xs = (case xs of [] \<Rightarrow> Inl ValueError | x # r \<Rightarrow> Inr (first_index xs (fold max r x)))"

subsection \<open>SamplerFactory: weights and the per-batch quota\<close>

text \<open>
  \<open>_balance_weights\<close>: the assertion on \<open>alpha\<close>, then the elementwise blend of two arrays
  of the same length.
\<close>

definition balance_weights :: "rat list \<Rightarrow> rat list \<Rightarrow> rat \<Rightarrow> error + rat list" where
  "balance_weights weight_a weight_b alpha =
     (if \<not> (alpha \<ge> 0 \<and> alpha \<le> 1) then Inl AssertionError
      else let beta = 1 - alpha
           in Inr (map (\<lambda>(a, b). (alpha * a) + (beta * b)) (zip weight_a weight_b)))"

text \<open>
  \<open>_weight_classes\<close>, on the value of the class partition (a list of index lists).
  \<open>1 / n_classes\<close> is Python's division and raises for no classes; \<open>size / n_samples\<close> is
  numpy's and yields \<open>nan\<close> when every class is empty.
\<close>

definition weight_classes :: "int list list \<Rightarrow> rat \<Rightarrow> error + (int list \<times> rat list)" where
  "weight_classes class_idxs alpha =
     (let class_sizes = map (\<lambda>idxs. int (length idxs)) class_idxs;
          n_samples = sum_list class_sizes;
          n_classes = length class_idxs
      in if n_classes = 0 then Inl ZeroDivisionError
         else let original_weights = map (\<lambda>sz. of_int sz / of_int n_samples) class_sizes;
                  uniform_weights = replicate n_classes (1 / of_nat n_classes)
              in case balance_weights uniform_weights original_weights alpha of
                   Inl e \<Rightarrow> Inl e
                 | Inr weights \<Rightarrow>
                     if n_samples = 0 then Inl NotANumber else Inr (class_sizes, weights))"

text \<open>\<open>_sample_rates\<close>: the rate of an empty class is never used by the random sampler.\<close>

definition sample_rates :: "rat list \<Rightarrow> int list \<Rightarrow> rat list" where
  "sample_rates weights class_sizes = map (\<lambda>(w, sz). w / of_int sz) (zip weights class_sizes)"

text \<open>
  \<open>_fix_batches\<close>: round, give the whole remainder to the first largest entry, assert the
  sum. \<open>class_sizes\<close> and \<open>n_batches\<close> only feed the log messages.
\<close>

definition fix_batches :: "rat list \<Rightarrow> int list \<Rightarrow> int \<Rightarrow> int \<Rightarrow> error + int list" where
  "fix_batches weights class_sizes batch_size n_batches =
     (let class_samples_per_batch = map (\<lambda>w. np_round (w * of_int batch_size)) weights;
          remainder = batch_size - sum_list class_samples_per_batch
      in case argmax class_samples_per_batch of
           Inl e \<Rightarrow> Inl e
         | Inr largest_class \<Rightarrow>
             let corrected = class_samples_per_batch
                   [largest_class := class_samples_per_batch ! largest_class + remainder]
             in if sum_list corrected \<noteq> batch_size then Inl AssertionError
                else Inr corrected)"

subsection \<open>The heap of index lists and numpy's generator\<close>

text \<open>
  The class lists are mutable Python objects that the caller and the sampler share, so
  they live in a heap: an address holds a list of sample indices. A class partition is
  the list of the addresses of its class lists.
\<close>

type_synonym addr = nat
type_synonym heap = "addr \<Rightarrow> int list"

text \<open>The heap that holds the given lists at the addresses \<open>0, 1, \<dots>\<close> and nothing else.\<close>

definition heap_of :: "int list list \<Rightarrow> heap" where
  "heap_of ls = (\<lambda>a. if a < length ls then ls ! a else [])"

text \<open>
  \<open>np.random.RandomState\<close> is numpy's: the generator is modelled by the sequence of its
  raw outputs and a position in it. \<open>rk_interval max\<close> draws a number in \<open>[0, max]\<close>.
\<close>

record RandomState =
  rk_draws :: "nat \<Rightarrow> nat"
  rk_pos :: nat

definition rk_interval :: "nat \<Rightarrow> RandomState \<Rightarrow> nat \<times> RandomState" where
  "rk_interval mx rs = (rk_draws rs (rk_pos rs) mod (mx + 1), rs\<lparr>rk_pos := rk_pos rs + 1\<rparr>)"

text \<open>
  \<open>RandomState.shuffle\<close>: for \<open>i\<close> from \<open>n - 1\<close> down to \<open>1\<close>, draw \<open>j\<close> in \<open>[0, i]\<close> and
  swap the entries \<open>i\<close> and \<open>j\<close>.
\<close>

fun shuffle_from :: "nat \<Rightarrow> int list \<Rightarrow> RandomState \<Rightarrow> int list \<times> RandomState" where
  "shuffle_from 0 xs rs = (xs, rs)"
| "shuffle_from (Suc i) xs rs =
     (let (j, rs') = rk_interval (Suc i) rs
      in shuffle_from i (xs[Suc i := xs ! j, j := xs ! Suc i]) rs')"

definition RandomState_shuffle :: "RandomState \<Rightarrow> int list \<Rightarrow> int list \<times> RandomState" where
  "RandomState_shuffle rs xs = shuffle_from (length xs - 1) xs rs"

definition RandomState_default :: RandomState where
  "RandomState_default = \<lparr>rk_draws = (\<lambda>_. 0), rk_pos = 0\<rparr>"

subsection \<open>CircularList\<close>

text \<open>\<open>_items\<close> is a reference to the list it was given, not a copy.\<close>

record CircularList =
  cl_items :: addr
  cl_mod :: nat

definition CircularList_init :: "heap \<Rightarrow> addr \<Rightarrow> CircularList" where
  "CircularList_init h items = \<lparr>cl_items = items, cl_mod = length (h items)\<rparr>"

definition CircularList_shuffle :: "CircularList \<Rightarrow> RandomState \<Rightarrow> heap \<Rightarrow> heap \<times> RandomState" where
  "CircularList_shuffle cl rs h =
     (let (xs, rs') = RandomState_shuffle rs (h (cl_items cl))
      in (h(cl_items cl := xs), rs'))"

text \<open>\<open>__getitem__\<close> with an integer key: \<open>self._items[key % self._mod]\<close>.\<close>

definition CircularList_getitem :: "heap \<Rightarrow> CircularList \<Rightarrow> int \<Rightarrow> error + int" where
  "CircularList_getitem h cl key =
     (if cl_mod cl = 0 then Inl ZeroDivisionError
      else py_index (h (cl_items cl)) (key mod int (cl_mod cl)))"

text \<open>
  \<open>__getitem__\<close> with the slice \<open>start:stop\<close> (both integers):
  \<open>[self[i] for i in range(start, stop)]\<close>.
\<close>

definition CircularList_getitem_slice :: "heap \<Rightarrow> CircularList \<Rightarrow> int \<Rightarrow> int \<Rightarrow> error + int list" where
  "CircularList_getitem_slice h cl start stop =
     collect (map (CircularList_getitem h cl) [start..stop - 1])"

subsection \<open>WeightedFixedBatchSampler\<close>

text \<open>
  An entry of \<open>self.class_idxs\<close> is either a \<open>CircularList\<close> around the caller's list or
  the caller's list itself.
\<close>

datatype pool = Circular CircularList | Plain addr

record WeightedFixedBatchSampler =
  class_samples_per_batch :: "int list"
  class_idxs :: "pool list"
  n_batches :: int
  n_classes :: nat
  batch_size :: int
  random_state :: "RandomState option"

text \<open>
  \<open>__init__\<close>; \<open>seeded\<close> is the generator \<open>np.random.RandomState(random_state)\<close> that the
  seed selects. \<open>n_batches\<close> is an \<open>int\<close> here, so the second assertion always holds.
\<close>

definition WeightedFixedBatchSampler_init ::
  "heap \<Rightarrow> int list \<Rightarrow> addr list \<Rightarrow> int \<Rightarrow> bool \<Rightarrow> bool \<Rightarrow> RandomState
    \<Rightarrow> error + WeightedFixedBatchSampler" where
  "WeightedFixedBatchSampler_init h quota idxs nb circular_list shuffle seeded =
     (let s = \<lparr>class_samples_per_batch = quota,
                class_idxs = (if circular_list then map (\<lambda>idx. Circular (CircularList_init h idx)) idxs
                              else map Plain idxs),
                n_batches = nb,
                n_classes = length quota,
                batch_size = sum_list quota,
                random_state = (if shuffle then Some seeded else None)\<rparr>
      in if length (class_samples_per_batch s) \<noteq> length (class_idxs s) then Inl AssertionError
         else Inr s)"

text \<open>\<open>self.class_idxs[c][a:b]\<close>: the circular read, or Python's own slice.\<close>

fun pool_slice :: "heap \<Rightarrow> pool \<Rightarrow> int \<Rightarrow> int \<Rightarrow> error + int list" where
  "pool_slice h (Circular cl) a b = CircularList_getitem_slice h cl a b"
| "pool_slice h (Plain p) a b = Inr (py_slice (h p) a b)"

text \<open>The loop of \<open>_get_batch\<close> over \<open>enumerate(self.class_samples_per_batch)\<close>.\<close>

fun get_batch_classes ::
  "WeightedFixedBatchSampler \<Rightarrow> heap \<Rightarrow> int list \<Rightarrow> nat \<Rightarrow> int list \<Rightarrow> int list
    \<Rightarrow> error + int list" where
  "get_batch_classes s h start_idxs c [] selected = Inr selected"
| "get_batch_classes s h start_idxs c (sz # sizes) selected =
     (if length (class_idxs s) \<le> c \<or> length start_idxs \<le> c then Inl IndexError
      else case pool_slice h (class_idxs s ! c) (start_idxs ! c) (start_idxs ! c + sz) of
             Inl e \<Rightarrow> Inl e
           | Inr part \<Rightarrow> get_batch_classes s h start_idxs (Suc c) sizes (selected @ part))"

definition get_batch ::
  "WeightedFixedBatchSampler \<Rightarrow> heap \<Rightarrow> int list
    \<Rightarrow> error + (int list \<times> WeightedFixedBatchSampler)" where
  "get_batch s h start_idxs =
     (case get_batch_classes s h start_idxs 0 (class_samples_per_batch s) [] of
        Inl e \<Rightarrow> Inl e
      | Inr selected \<Rightarrow>
          (case random_state s of
             None \<Rightarrow> Inr (selected, s)
           | Some rs \<Rightarrow>
               let (shuffled, rs') = RandomState_shuffle rs selected
               in Inr (shuffled, s\<lparr>random_state := Some rs'\<rparr>)))"

text \<open>
  What a complete pass over the generator gives its consumer: the batches yielded, and
  the exception that ended the pass, if one did.
\<close>

record iter_result =
  yielded :: "int list list"
  raised :: "error option"

text \<open>
  The loop over \<open>range(self.n_batches)\<close>: yield the batch, then
  \<open>start_idxs += self.class_samples_per_batch\<close> (both have \<open>n_classes\<close> entries).
\<close>

fun iter_batches ::
  "WeightedFixedBatchSampler \<Rightarrow> heap \<Rightarrow> nat \<Rightarrow> int list
    \<Rightarrow> iter_result \<times> WeightedFixedBatchSampler" where
  "iter_batches s h 0 start_idxs = (\<lparr>yielded = [], raised = None\<rparr>, s)"
| "iter_batches s h (Suc k) start_idxs =
     (case get_batch s h start_idxs of
        Inl e \<Rightarrow> (\<lparr>yielded = [], raised = Some e\<rparr>, s)
      | Inr (batch, s') \<Rightarrow>
          let (r, s'') = iter_batches s' h k
                (map (\<lambda>(a, b). a + b) (zip start_idxs (class_samples_per_batch s')))
          in (r\<lparr>yielded := batch # yielded r\<rparr>, s''))"

text \<open>
  \<open>cidx.shuffle(self.random_state)\<close> for every pool: a plain list has no such method.
\<close>

fun shuffle_pools :: "pool list \<Rightarrow> RandomState \<Rightarrow> heap \<Rightarrow> error option \<times> heap \<times> RandomState" where
  "shuffle_pools [] rs h = (None, h, rs)"
| "shuffle_pools (Circular cl # ps) rs h =
     (let (h', rs') = CircularList_shuffle cl rs h in shuffle_pools ps rs' h')"
| "shuffle_pools (Plain p # ps) rs h = (Some AttributeError, h, rs)"

definition WeightedFixedBatchSampler_iter ::
  "WeightedFixedBatchSampler \<Rightarrow> heap
    \<Rightarrow> iter_result \<times> WeightedFixedBatchSampler \<times> heap" where
  "WeightedFixedBatchSampler_iter s h =
     (case random_state s of
        None \<Rightarrow>
          let (r, s') = iter_batches s h (nat (n_batches s)) (replicate (n_classes s) 0)
          in (r, s', h)
      | Some rs \<Rightarrow>
          (case shuffle_pools (class_idxs s) rs h of
             (Some e, h', rs') \<Rightarrow>
               (\<lparr>yielded = [], raised = Some e\<rparr>, s\<lparr>random_state := Some rs'\<rparr>, h')
           | (None, h', rs') \<Rightarrow>
               let (r, s') = iter_batches (s\<lparr>random_state := Some rs'\<rparr>) h'
                     (nat (n_batches s)) (replicate (n_classes s) 0)
               in (r, s', h')))"


subsection \<open>WeightedRandomBatchSampler\<close>

text \<open>
  \<open>__init__\<close> copies the indices (\<open>extend\<close>) and repeats each class weight once per
  sample of the class; the object keeps no reference to the caller's lists. torch's
  \<open>WeightedRandomSampler\<close> refuses a number of samples that is not positive, and its
  draws are torch's: \<open>draws b\<close> is the sequence of positions it gives for batch \<open>b\<close>.
\<close>

record WeightedRandomBatchSampler =
  sample_idxs :: "int list"
  sample_weights :: "rat list"
  num_samples :: int
  wr_n_batches :: int

definition WeightedRandomBatchSampler_init ::
  "rat list \<Rightarrow> int list list \<Rightarrow> int \<Rightarrow> int \<Rightarrow> error + WeightedRandomBatchSampler" where
  "WeightedRandomBatchSampler_init class_weights idxs bs nb =
     (case collect (map (\<lambda>(c, weight).
                      case py_index idxs (int c) of
                        Inl e \<Rightarrow> Inl e
                      | Inr l \<Rightarrow> Inr (replicate (length l) weight))
                    (zip [0..<length class_weights] class_weights)) of
        Inl e \<Rightarrow> Inl e
      | Inr ws \<Rightarrow>
          if bs \<le> 0 then Inl ValueError
          else Inr \<lparr>sample_idxs = concat idxs, sample_weights = concat ws,
                    num_samples = bs, wr_n_batches = nb\<rparr>)"




subsection \<open>SamplerFactory.get\<close>

datatype sampler =
    Fixed WeightedFixedBatchSampler
  | Random WeightedRandomBatchSampler

definition SamplerFactory_random ::
  "heap \<Rightarrow> addr list \<Rightarrow> int \<Rightarrow> int \<Rightarrow> rat \<Rightarrow> error + sampler" where
  "SamplerFactory_random h idxs bs nb alpha =
     (case weight_classes (map h idxs) alpha of
        Inl e \<Rightarrow> Inl e
      | Inr (class_sizes, weights) \<Rightarrow>
          (case WeightedRandomBatchSampler_init (sample_rates weights class_sizes) (map h idxs) bs nb of
             Inl e \<Rightarrow> Inl e
           | Inr s \<Rightarrow> Inr (Random s)))"

definition SamplerFactory_fixed ::
  "heap \<Rightarrow> addr list \<Rightarrow> int \<Rightarrow> int \<Rightarrow> rat \<Rightarrow> error + sampler" where
  "SamplerFactory_fixed h idxs bs nb alpha =
     (case weight_classes (map h idxs) alpha of
        Inl e \<Rightarrow> Inl e
      | Inr (class_sizes, weights) \<Rightarrow>
          (case fix_batches weights class_sizes bs nb of
             Inl e \<Rightarrow> Inl e
           | Inr quota \<Rightarrow>
               (case WeightedFixedBatchSampler_init h quota idxs nb True False RandomState_default of
                  Inl e \<Rightarrow> Inl e
                | Inr s \<Rightarrow> Inr (Fixed s))))"

definition SamplerFactory_get ::
  "heap \<Rightarrow> addr list \<Rightarrow> int \<Rightarrow> int \<Rightarrow> rat \<Rightarrow> string \<Rightarrow> error + sampler" where
  "SamplerFactory_get h idxs bs nb alpha kind =
     (if kind = ''random'' then SamplerFactory_random h idxs bs nb alpha
      else if kind = ''fixed'' then SamplerFactory_fixed h idxs bs nb alpha
      else Inl (Exception kind))"




subsection \<open>The unshuffled pass in the words of the specification\<close>



text \<open>
  The invariant behind the circular passes: as many pools as quota entries, every pool a
  \<open>CircularList\<close> whose modulus is the length of its non-empty list, no negative quota.
\<close>

fun pool_ready :: "heap \<Rightarrow> pool \<Rightarrow> bool" where
  "pool_ready h (Circular cl) = (cl_mod cl = length (h (cl_items cl)) \<and> h (cl_items cl) \<noteq> [])"
| "pool_ready h (Plain p) = False"

definition circular_ready :: "WeightedFixedBatchSampler \<Rightarrow> heap \<Rightarrow> bool" where
  "circular_ready s h =
     (length (class_idxs s) = length (class_samples_per_batch s)
      \<and> n_classes s = length (class_samples_per_batch s)
      \<and> list_all (pool_ready h) (class_idxs s)
      \<and> list_all (\<lambda>q. 0 \<le> q) (class_samples_per_batch s))"

subsection \<open>BalancedDataLoader\<close>


section \<open>The quota planner\<close>










text \<open>
  Claim C8 (every entry of the quota is non-negative) fails on the code: for five
  classes of weight 1/5 and batch size 3 every raw entry is \<open>round(0.6) = 1\<close>, the
  remainder is \<open>3 - 5 = -2\<close>, and the first entry becomes \<open>-1\<close>. The factory reaches this
  with five classes of one sample each, and the batch of the sampler it returns has four
  indices where \<open>batch_size\<close> is 3.
\<close>

theorem fix_batches_negative_entry:
  "fix_batches [1/5, 1/5, 1/5, 1/5, 1/5] [1, 1, 1, 1, 1] 3 1 = Inr [-1, 1, 1, 1, 1]
   \<and> (case SamplerFactory_get (heap_of [[0], [1], [2], [3], [4]]) [0, 1, 2, 3, 4] 3 1 1 ''fixed'' of
        Inr (Fixed s) \<Rightarrow>
          class_samples_per_batch s = [-1, 1, 1, 1, 1] \<and> batch_size s = 3
          \<and> yielded (fst (WeightedFixedBatchSampler_iter s (heap_of [[0], [1], [2], [3], [4]])))
              = [[1, 2, 3, 4]]
      | _ \<Rightarrow> False)"
  by code_simp

section \<open>The class weights\<close>








section \<open>The circular pool\<close>

lemma collect_map_Inr: "collect (map (\<lambda>x. Inr (g x)) xs) = Inr (map g xs)"
  by (induction xs) auto

lemma upto_as_map: "[start..start + int n - 1] = map (\<lambda>k. start + int k) [0..<n]"
proof (induction n)
  case 0
  then show ?case by simp
next
  case (Suc n)
  have "[start..start + int (Suc n) - 1] = [start..start + int n - 1] @ [start + int n]"
    using upto_rec2[of start "start + int n"] by simp
  then show ?case using Suc by simp
qed

lemma getitem_wrapped:
  assumes "cl_mod cl = length (h (cl_items cl))" and "h (cl_items cl) \<noteq> []"
  shows "CircularList_getitem h cl key
           = Inr (h (cl_items cl) ! nat (key mod int (length (h (cl_items cl)))))"
    and "nat (key mod int (length (h (cl_items cl)))) < length (h (cl_items cl))"
proof -
  have pos: "0 < int (length (h (cl_items cl)))" using assms(2) by simp
  have lo: "0 \<le> key mod int (length (h (cl_items cl)))"
    using pos by (rule pos_mod_sign)
  have hi: "key mod int (length (h (cl_items cl))) < int (length (h (cl_items cl)))"
    using pos by (rule pos_mod_bound)
  show "nat (key mod int (length (h (cl_items cl)))) < length (h (cl_items cl))"
    using lo hi by linarith
  show "CircularList_getitem h cl key
           = Inr (h (cl_items cl) ! nat (key mod int (length (h (cl_items cl)))))"
  proof -
    have nl: "\<not> key mod int (length (h (cl_items cl))) < 0" using lo by simp
    show ?thesis
      using assms hi nl by (simp add: CircularList_getitem_def py_index_def Let_def)
  qed
qed

lemma getitem_slice_wrapped:
  assumes "cl_mod cl = length (h (cl_items cl))" and "h (cl_items cl) \<noteq> []"
  shows "CircularList_getitem_slice h cl start (start + int n)
           = Inr (map (\<lambda>k. h (cl_items cl) ! nat ((start + int k) mod int (length (h (cl_items cl)))))
                   [0..<n])"
proof -
  have "CircularList_getitem h cl
          = (\<lambda>key. Inr (h (cl_items cl) ! nat (key mod int (length (h (cl_items cl))))))"
    using getitem_wrapped(1)[of cl h, OF assms] by (intro ext)
  then show ?thesis
    by (simp add: CircularList_getitem_slice_def collect_map_Inr upto_as_map o_def)
qed

text \<open>
  Claim C10. On a circular pool over a non-empty list, indexing with any integer key
  (negative, or beyond the length) succeeds and returns \<open>items[key mod len(items)]\<close>,
  an index inside the list.
\<close>

theorem circular_getitem_total:
  assumes "h items \<noteq> []"
  shows "CircularList_getitem h (CircularList_init h items) key
           = Inr (h items ! nat (key mod int (length (h items))))
         \<and> nat (key mod int (length (h items))) < length (h items)"
  using getitem_wrapped[of "CircularList_init h items" h key] assms
  by (simp add: CircularList_init_def)

theorem circular_getitem_total_witness:
  "heap_of [[5, 7]] 0 \<noteq> []
   \<and> CircularList_getitem (heap_of [[5, 7]]) (CircularList_init (heap_of [[5, 7]]) 0) (- 1) = Inr 7
   \<and> CircularList_getitem (heap_of [[5, 7]]) (CircularList_init (heap_of [[5, 7]]) 0) 4 = Inr 5"
proof -
  have h: "heap_of [[5, 7]] 0 \<noteq> []" by (simp add: heap_of_def)
  have v: "heap_of [[5, 7]] 0 = [5, 7]" by (simp add: heap_of_def)
  show ?thesis
    using h circular_getitem_total[of "heap_of [[5, 7]]" 0 "- 1", OF h]
      circular_getitem_total[of "heap_of [[5, 7]]" 0 4, OF h]
    by (simp add: v)
qed

text \<open>
  Claim C4. Reading \<open>length\<close> elements from \<open>start\<close> on a circular pool over a non-empty
  list returns the list whose \<open>k\<close>-th element is \<open>items[(start + k) mod len(items)]\<close>, for
  any integer \<open>start\<close> and any \<open>length \<ge> 0\<close>, also beyond the size of the pool.
\<close>

theorem circular_read_wraps:
  assumes "h items \<noteq> []" and "0 \<le> len"
  shows "CircularList_getitem_slice h (CircularList_init h items) start (start + len)
           = Inr (map (\<lambda>k. h items ! nat ((start + int k) mod int (length (h items))))
                   [0..<nat len])"
  using getitem_slice_wrapped[of "CircularList_init h items" h start "nat len"] assms
  by (simp add: CircularList_init_def)

theorem circular_read_wraps_witness:
  "heap_of [[5, 7]] 0 \<noteq> [] \<and> (0::int) \<le> 5
   \<and> CircularList_getitem_slice (heap_of [[5, 7]]) (CircularList_init (heap_of [[5, 7]]) 0) 0 (0 + 5)
       = Inr [5, 7, 5, 7, 5]"
proof -
  have h: "heap_of [[5, 7]] 0 \<noteq> []" by (simp add: heap_of_def)
  have v: "heap_of [[5, 7]] 0 = [5, 7]" by (simp add: heap_of_def)
  have l: "(0::int) \<le> 5" by simp
  have u: "[0..<5] = [0, 1, 2, 3, 4]" by code_simp
  show ?thesis
    using h l circular_read_wraps[of "heap_of [[5, 7]]" 0 5 0, OF h l]
    by (simp add: v u)
qed

section \<open>The fixed sampler over circular pools\<close>

subsection \<open>Shuffling permutes\<close>







subsection \<open>A pass over circular pools\<close>



lemma circular_ready_random_state [simp]:
  "circular_ready (s\<lparr>random_state := x\<rparr>) h = circular_ready s h"
  by (simp add: circular_ready_def)









section \<open>The fixed sampler without a shuffle policy\<close>

subsection \<open>A pass without shuffling\<close>









subsection \<open>A pass over plain lists\<close>







section \<open>The caller's partition and the data loader\<close>

subsection \<open>What a pass does to the caller's lists\<close>









subsection \<open>The data loader's sampler\<close>










end
